theory Spec2Isabelle
  imports Main "HOL-Library.Word"
begin

section \<open>JavaScript values\<close>

text \<open>
  A JavaScript string is a sequence of UTF-16 code units.  Numbers that hold
  instants and durations are integers (milliseconds); the rounding of IEEE
  doubles and the range limit of \<open>Date\<close> (8.64e15 ms around the epoch) are
  outside the model.
\<close>

type_synonym jsstring = "16 word list"

definition js :: "string \<Rightarrow> jsstring" where
  "js s = map (\<lambda>c. of_nat (of_char c)) s"

text \<open>Truthiness of \<open>string | null\<close> and of \<open>number | null\<close>: the empty
  string, zero, \<open>NaN\<close> and \<open>null\<close> are falsy.\<close>

definition truthyStr :: "jsstring option \<Rightarrow> bool" where
  "truthyStr v = (case v of None \<Rightarrow> False | Some s \<Rightarrow> s \<noteq> [])"

definition truthyNum :: "int option \<Rightarrow> bool" where
  "truthyNum v = (case v of None \<Rightarrow> False | Some n \<Rightarrow> n \<noteq> 0)"

text \<open>White space and line terminators of ECMAScript, as removed by
  \<open>String.prototype.trim\<close> and skipped by \<open>parseInt\<close>.\<close>

definition isWhiteSpace :: "16 word \<Rightarrow> bool" where
  "isWhiteSpace c =
     (c = 0x0009 \<or> c = 0x000A \<or> c = 0x000B \<or> c = 0x000C \<or> c = 0x000D \<or> c = 0x0020
      \<or> c = 0x00A0 \<or> c = 0x1680 \<or> (0x2000 \<le> c \<and> c \<le> 0x200A) \<or> c = 0x2028
      \<or> c = 0x2029 \<or> c = 0x202F \<or> c = 0x205F \<or> c = 0x3000 \<or> c = 0xFEFF)"

definition trimStart :: "jsstring \<Rightarrow> jsstring" where
  "trimStart s = dropWhile isWhiteSpace s"

definition trim :: "jsstring \<Rightarrow> jsstring" where
  "trim s = rev (dropWhile isWhiteSpace (rev (dropWhile isWhiteSpace s)))"

definition isDigit :: "16 word \<Rightarrow> bool" where
  "isDigit c = (0x0030 \<le> c \<and> c \<le> 0x0039)"

fun digitsValue :: "int \<Rightarrow> jsstring \<Rightarrow> int" where
  "digitsValue acc [] = acc"
| "digitsValue acc (c # cs) = digitsValue (10 * acc + (int (unat c) - 48)) cs"

text \<open>\<open>parseInt(s, 10)\<close>; \<open>None\<close> is \<open>NaN\<close>.\<close>

definition parseInt :: "jsstring \<Rightarrow> int option" where
  "parseInt s =
     (let S = trimStart s;
          neg = (S \<noteq> [] \<and> hd S = 0x002D);
          S' = (if S \<noteq> [] \<and> (hd S = 0x002B \<or> hd S = 0x002D) then tl S else S);
          Z = takeWhile isDigit S'
      in if Z = [] then None
         else Some ((if neg then - 1 else 1) * digitsValue 0 Z))"

section \<open>The data model (types.ts)\<close>

text \<open>The field \<open>id\<close> of a session is \<open>sessionId\<close> here and that of a task
  \<open>taskId\<close>; an absent \<open>endTime\<close> (\<open>null\<close>) is \<open>None\<close>.\<close>

record TimeSession =
  sessionId :: jsstring
  startTime :: int
  endTime :: "int option"
  duration :: int

record Task =
  taskId :: jsstring
  title :: jsstring
  color :: jsstring
  sessions :: "TimeSession list"
  createdAt :: int

datatype Period = Today | Week | Month

section \<open>Dates\<close>

text \<open>
  A \<open>Date\<close> is its time value, the milliseconds since the epoch in UTC.  The
  functions below are those of the ECMAScript specification (Date objects);
  \<open>YearFromDay\<close> computes the year that the specification describes as the
  largest \<open>y\<close> with \<open>DayFromYear y \<le> day\<close>.
\<close>

type_synonym Date = int

definition msPerDay :: int where "msPerDay = 86400000"
definition msPerHour :: int where "msPerHour = 3600000"
definition msPerMinute :: int where "msPerMinute = 60000"
definition msPerSecond :: int where "msPerSecond = 1000"

definition Day :: "int \<Rightarrow> int" where
  "Day t = t div msPerDay"

definition TimeWithinDay :: "int \<Rightarrow> int" where
  "TimeWithinDay t = t mod msPerDay"

definition DaysInYear :: "int \<Rightarrow> int" where
  "DaysInYear y =
     (if y mod 4 \<noteq> 0 then 365 else if y mod 100 \<noteq> 0 then 366
      else if y mod 400 \<noteq> 0 then 365 else 366)"

definition DayFromYear :: "int \<Rightarrow> int" where
  "DayFromYear y =
     365 * (y - 1970) + (y - 1969) div 4 - (y - 1901) div 100 + (y - 1601) div 400"

definition YearFromDay :: "int \<Rightarrow> int" where
  "YearFromDay n =
     (let y0 = 1970 + (400 * n) div 146097 in
      if n < DayFromYear y0 then y0 - 1
      else if DayFromYear (y0 + 1) \<le> n then y0 + 1 else y0)"

definition YearFromTime :: "int \<Rightarrow> int" where
  "YearFromTime t = YearFromDay (Day t)"

definition leapFlag :: "int \<Rightarrow> int" where
  "leapFlag y = (if DaysInYear y = 366 then 1 else 0)"

definition InLeapYear :: "int \<Rightarrow> int" where
  "InLeapYear t = leapFlag (YearFromTime t)"

definition DayWithinYear :: "int \<Rightarrow> int" where
  "DayWithinYear t = Day t - DayFromYear (YearFromTime t)"

text \<open>The day within the year on which month \<open>m\<close> (0 to 11) begins.\<close>

definition monthStart :: "int \<Rightarrow> int \<Rightarrow> int" where
  "monthStart m L =
     (if m = 0 then 0 else if m = 1 then 31 else if m = 2 then 59 + L
      else if m = 3 then 90 + L else if m = 4 then 120 + L else if m = 5 then 151 + L
      else if m = 6 then 181 + L else if m = 7 then 212 + L else if m = 8 then 243 + L
      else if m = 9 then 273 + L else if m = 10 then 304 + L else 334 + L)"

definition monthOfDay :: "int \<Rightarrow> int \<Rightarrow> int" where
  "monthOfDay d L =
     (if d < 31 then 0 else if d < 59 + L then 1 else if d < 90 + L then 2
      else if d < 120 + L then 3 else if d < 151 + L then 4 else if d < 181 + L then 5
      else if d < 212 + L then 6 else if d < 243 + L then 7 else if d < 273 + L then 8
      else if d < 304 + L then 9 else if d < 334 + L then 10 else 11)"

definition MonthFromTime :: "int \<Rightarrow> int" where
  "MonthFromTime t = monthOfDay (DayWithinYear t) (InLeapYear t)"

definition DateFromTime :: "int \<Rightarrow> int" where
  "DateFromTime t = DayWithinYear t - monthStart (MonthFromTime t) (InLeapYear t) + 1"

definition WeekDay :: "int \<Rightarrow> int" where
  "WeekDay t = (Day t + 4) mod 7"

definition MakeTime :: "int \<Rightarrow> int \<Rightarrow> int \<Rightarrow> int \<Rightarrow> int" where
  "MakeTime h m s ms = h * msPerHour + m * msPerMinute + s * msPerSecond + ms"

definition MakeDay :: "int \<Rightarrow> int \<Rightarrow> int \<Rightarrow> int" where
  "MakeDay year month dt =
     (let ym = year + month div 12; mn = month mod 12
      in DayFromYear ym + monthStart mn (leapFlag ym) + dt - 1)"

definition MakeDate :: "int \<Rightarrow> int \<Rightarrow> int" where
  "MakeDate day time = day * msPerDay + time"

text \<open>
  The host's time zone is the function \<open>LocalTZA(t, isUTC)\<close> of the
  specification: the offset of local time from UTC at the instant \<open>t\<close> when
  \<open>isUTC\<close> holds, and the offset to use for the local time \<open>t\<close> otherwise.
\<close>

type_synonym zone = "int \<Rightarrow> bool \<Rightarrow> int"

definition LocalTime :: "zone \<Rightarrow> int \<Rightarrow> int" where
  "LocalTime tz t = t + tz t True"

definition UTC :: "zone \<Rightarrow> int \<Rightarrow> int" where
  "UTC tz t = t - tz t False"

text \<open>A zone whose offset never changes.\<close>

definition fixedZone :: "int \<Rightarrow> zone" where
  "fixedZone off = (\<lambda>t isUTC. off)"

text \<open>Central European time in 2025: UTC+1, and UTC+2 from 30 March 01:00 UTC
  to 26 October 01:00 UTC.  A skipped local time takes the offset before the
  change and a repeated one its first occurrence.\<close>

definition zoneCET2025 :: zone where
  "zoneCET2025 = (\<lambda>t isUTC.
     if isUTC then (if 1743296400000 \<le> t \<and> t < 1761440400000 then 7200000 else 3600000)
     else (if 1743303600000 \<le> t \<and> t < 1761447600000 then 7200000 else 3600000))"


text \<open>Samoa (Pacific/Apia) around the end of 2011, during its summer time: UTC-10
  until 30 December 2011 10:00 UTC, UTC+14 from then on, so that the local
  calendar goes from 29 December to 31 December.  The skipped local times of
  30 December take the offset before the change.\<close>

definition zoneApia2011 :: zone where
  "zoneApia2011 = (\<lambda>t isUTC.
     if isUTC then (if t < 1325239200000 then - 36000000 else 50400000)
     else (if t < 1325289600000 then - 36000000 else 50400000))"

definition getFullYear :: "zone \<Rightarrow> Date \<Rightarrow> int" where
  "getFullYear tz d = YearFromTime (LocalTime tz d)"

definition getMonth :: "zone \<Rightarrow> Date \<Rightarrow> int" where
  "getMonth tz d = MonthFromTime (LocalTime tz d)"

definition getDate :: "zone \<Rightarrow> Date \<Rightarrow> int" where
  "getDate tz d = DateFromTime (LocalTime tz d)"

definition getDay :: "zone \<Rightarrow> Date \<Rightarrow> int" where
  "getDay tz d = WeekDay (LocalTime tz d)"

definition setDate :: "zone \<Rightarrow> Date \<Rightarrow> int \<Rightarrow> Date" where
  "setDate tz d dt =
     (let t = LocalTime tz d;
          newDate = MakeDate (MakeDay (YearFromTime t) (MonthFromTime t) dt) (TimeWithinDay t)
      in UTC tz newDate)"


definition setHours :: "zone \<Rightarrow> Date \<Rightarrow> int \<Rightarrow> int \<Rightarrow> int \<Rightarrow> int \<Rightarrow> Date" where
  "setHours tz d h m s ms =
     (let t = LocalTime tz d;
          date = MakeDate (Day t) (MakeTime h m s ms)
      in UTC tz date)"

text \<open>\<open>new Date(year, month, day)\<close>: a year from 0 to 99 means 1900 + year.\<close>

definition newDate :: "zone \<Rightarrow> int \<Rightarrow> int \<Rightarrow> int \<Rightarrow> Date" where
  "newDate tz year month dt =
     (let yr = (if 0 \<le> year \<and> year \<le> 99 then 1900 + year else year)
      in UTC tz (MakeDate (MakeDay yr month dt) (MakeTime 0 0 0 0)))"

section \<open>Date utilities (utils.ts)\<close>

definition isSameDay :: "zone \<Rightarrow> Date \<Rightarrow> Date \<Rightarrow> bool" where
  "isSameDay tz d1 d2 =
     (getFullYear tz d1 = getFullYear tz d2 \<and> getMonth tz d1 = getMonth tz d2
      \<and> getDate tz d1 = getDate tz d2)"

definition getStartOfWeek :: "zone \<Rightarrow> Date \<Rightarrow> Date" where
  "getStartOfWeek tz date =
     (let d = date;
          day = getDay tz d;
          diff = getDate tz d - day + (if day = 0 then - 6 else 1);
          d = setDate tz d diff;
          d = setHours tz d 0 0 0 0
      in d)"

definition getEndOfWeek :: "zone \<Rightarrow> Date \<Rightarrow> Date" where
  "getEndOfWeek tz date =
     (let start = getStartOfWeek tz date;
          e = start;
          e = setDate tz e (getDate tz start + 6);
          e = setHours tz e 23 59 59 999
      in e)"

definition getStartOfMonth :: "zone \<Rightarrow> Date \<Rightarrow> Date" where
  "getStartOfMonth tz date = newDate tz (getFullYear tz date) (getMonth tz date) 1"

definition getEndOfMonth :: "zone \<Rightarrow> Date \<Rightarrow> Date" where
  "getEndOfMonth tz date =
     (let d = newDate tz (getFullYear tz date) (getMonth tz date + 1) 0
      in setHours tz d 23 59 59 999)"

text \<open>The loop of \<open>getCalendarGrid\<close>: \<open>for (let i = 0; i < 42; i++)\<close>.\<close>

function gridLoop :: "zone \<Rightarrow> Date \<Rightarrow> nat \<Rightarrow> Date list \<Rightarrow> Date list" where
  "gridLoop tz startDate i grid =
     (if i < 42
      then gridLoop tz startDate (i + 1)
             (grid @ [setDate tz startDate (getDate tz startDate + int i)])
      else grid)"
  by pat_completeness auto
termination
  by (relation "measure (\<lambda>(tz, startDate, i, grid). 42 - i)") auto

definition getCalendarGrid :: "zone \<Rightarrow> int \<Rightarrow> int \<Rightarrow> Date list" where
  "getCalendarGrid tz year month =
     (let firstDayOfMonth = newDate tz year month 1;
          startDayOfWeek = getDay tz firstDayOfMonth;
          startDate = setDate tz firstDayOfMonth (getDate tz firstDayOfMonth - startDayOfWeek)
      in gridLoop tz startDate 0 [])"

section \<open>Application state and handlers (App.tsx)\<close>

text \<open>
  The state variables of \<open>App\<close> that the handlers read and write.  The state
  variable \<open>startTime\<close> is the field \<open>timerStart\<close> (the name \<open>startTime\<close> is the
  session's field); it is only ever read under a truthiness test, which \<open>null\<close>
  and \<open>NaN\<close> both fail, so both are \<open>None\<close>.
\<close>

record AppState =
  tasks :: "Task list"
  activeTaskId :: "jsstring option"
  timerStart :: "int option"
  currentSessionDuration :: int
  newTaskName :: jsstring
  isModalOpen :: bool

text \<open>The three items of local storage; \<open>focusflow_tasks\<close> holds the task
  array that \<open>JSON.parse\<close> returns.\<close>

record Storage =
  focusflow_tasks :: "Task list option"
  focusflow_active_id :: "jsstring option"
  focusflow_start_time :: "jsstring option"

definition rehydrate :: "Storage \<Rightarrow> AppState" where
  "rehydrate sto =
     \<lparr> tasks = (case focusflow_tasks sto of None \<Rightarrow> [] | Some ts \<Rightarrow> ts),
       activeTaskId = focusflow_active_id sto,
       timerStart = (case focusflow_start_time sto of
                       None \<Rightarrow> None
                     | Some saved \<Rightarrow> if saved \<noteq> [] then parseInt saved else None),
       currentSessionDuration = 0,
       newTaskName = [],
       isModalOpen = False \<rparr>"

text \<open>The effect on \<open>[activeTaskId, startTime]\<close>: an interval is running
  exactly when both are truthy; otherwise the displayed duration is reset.
  \<open>tick\<close> is the interval's callback.\<close>

definition intervalActive :: "AppState \<Rightarrow> bool" where
  "intervalActive s = (truthyStr (activeTaskId s) \<and> truthyNum (timerStart s))"

definition timerEffect :: "AppState \<Rightarrow> AppState" where
  "timerEffect s = (if intervalActive s then s else s\<lparr>currentSessionDuration := 0\<rparr>)"

definition tick :: "int \<Rightarrow> AppState \<Rightarrow> AppState" where
  "tick now s =
     (case timerStart s of
        Some st \<Rightarrow> if intervalActive s then s\<lparr>currentSessionDuration := now - st\<rparr> else s
      | None \<Rightarrow> s)"

text \<open>
  The handlers take the values they draw from the environment as arguments:
  \<open>uuid\<close> for \<open>crypto.randomUUID()\<close>, \<open>col\<close> for \<open>getRandomColor()\<close> and one
  argument for each reading of \<open>Date.now()\<close>.
\<close>

definition addTask :: "jsstring \<Rightarrow> jsstring \<Rightarrow> int \<Rightarrow> AppState \<Rightarrow> AppState" where
  "addTask uuid col now s =
     (if trim (newTaskName s) = [] then s
      else
        let newTask = \<lparr> taskId = uuid, title = newTaskName s, color = col,
                        sessions = [], createdAt = now \<rparr>
        in s\<lparr>tasks := tasks s @ [newTask], newTaskName := [], isModalOpen := False\<rparr>)"

definition stopTimer :: "int \<Rightarrow> jsstring \<Rightarrow> AppState \<Rightarrow> AppState" where
  "stopTimer now uuid s =
     (case (activeTaskId s, timerStart s) of
        (Some aid, Some st) \<Rightarrow>
          if aid = [] \<or> st = 0 then s
          else
            let endT = now;
                dur = endT - st
            in s\<lparr>tasks := map (\<lambda>t. if taskId t = aid
                                    then t\<lparr>sessions := sessions t @
                                           [\<lparr> sessionId = uuid, startTime = st,
                                              endTime = Some endT, duration = dur \<rparr>]\<rparr>
                                    else t) (tasks s),
                 activeTaskId := None,
                 timerStart := None,
                 currentSessionDuration := 0\<rparr>
      | _ \<Rightarrow> s)"

text \<open>\<open>setTasks(tasks.filter(...))\<close> replaces the list by a filter of the
  list of the current render, after the update queued by \<open>stopTimer\<close>.\<close>

definition deleteTask :: "jsstring \<Rightarrow> int \<Rightarrow> jsstring \<Rightarrow> AppState \<Rightarrow> AppState" where
  "deleteTask ident now uuid s =
     (let s1 = (if activeTaskId s = Some ident then stopTimer now uuid s else s)
      in s1\<lparr>tasks := filter (\<lambda>t. taskId t \<noteq> ident) (tasks s)\<rparr>)"

text \<open>\<open>nowStop\<close> is the reading taken inside \<open>stopTimer\<close>, \<open>nowStart\<close> the later
  one taken by \<open>setStartTime(Date.now())\<close>.\<close>

definition startTimer :: "jsstring \<Rightarrow> int \<Rightarrow> jsstring \<Rightarrow> int \<Rightarrow> AppState \<Rightarrow> AppState" where
  "startTimer ident nowStop uuid nowStart s =
     (let s1 = (if truthyStr (activeTaskId s) then stopTimer nowStop uuid s else s)
      in s1\<lparr>activeTaskId := Some ident, timerStart := Some nowStart\<rparr>)"

definition toggleTimer :: "jsstring \<Rightarrow> int \<Rightarrow> jsstring \<Rightarrow> int \<Rightarrow> AppState \<Rightarrow> AppState" where
  "toggleTimer ident nowStop uuid nowStart s =
     (if activeTaskId s = Some ident then stopTimer nowStop uuid s
      else startTimer ident nowStop uuid nowStart s)"

text \<open>\<open>const isActive = activeTaskId === task.id\<close> of the task list.\<close>

definition isActive :: "AppState \<Rightarrow> Task \<Rightarrow> bool" where
  "isActive s task = (activeTaskId s = Some (taskId task))"

text \<open>\<open>getTaskTodayStats\<close> returns \<open>{ duration, count }\<close>, here a pair;
  \<open>now\<close> is the instant of \<open>new Date()\<close>.\<close>

definition getTaskTodayStats :: "zone \<Rightarrow> int \<Rightarrow> AppState \<Rightarrow> Task \<Rightarrow> int \<times> int" where
  "getTaskTodayStats tz now s task =
     (let today = now;
          todaySessions = filter (\<lambda>x. truthyNum (endTime x) \<and> isSameDay tz (startTime x) today)
                            (sessions task);
          todayDuration = fold (\<lambda>x acc. acc + duration x) todaySessions 0;
          todayDuration = (if activeTaskId s = Some (taskId task)
                           then todayDuration + currentSessionDuration s else todayDuration);
          count = int (length (sessions task))
                    + (if activeTaskId s = Some (taskId task) then 1 else 0)
      in (todayDuration, count))"

section \<open>The statistics view (Stats.tsx)\<close>



text \<open>The predicate of \<open>task.sessions.filter\<close> inside \<open>data\<close>.\<close>

definition relevantSession :: "zone \<Rightarrow> Period \<Rightarrow> Date \<Rightarrow> TimeSession \<Rightarrow> bool" where
  "relevantSession tz period dateCursor session =
     (if \<not> truthyNum (endTime session) then False
      else
        let sessionDate = startTime session in
        case period of
          Today \<Rightarrow> isSameDay tz sessionDate dateCursor
        | Week \<Rightarrow>
            (let start = getStartOfWeek tz dateCursor;
                 e = getEndOfWeek tz dateCursor
             in start \<le> sessionDate \<and> sessionDate \<le> e)
        | Month \<Rightarrow>
            (let start = getStartOfMonth tz dateCursor;
                 e = getEndOfMonth tz dateCursor
             in start \<le> sessionDate \<and> sessionDate \<le> e))"

text \<open>\<open>Array.prototype.sort\<close> with a comparator is a stable sort: an element
  goes before the first element that the comparator does not put before it.\<close>

fun insertBy :: "('a \<Rightarrow> 'a \<Rightarrow> int) \<Rightarrow> 'a \<Rightarrow> 'a list \<Rightarrow> 'a list" where
  "insertBy cmp x [] = [x]"
| "insertBy cmp x (y # ys) = (if cmp x y \<le> 0 then x # y # ys else y # insertBy cmp x ys)"

definition sortBy :: "('a \<Rightarrow> 'a \<Rightarrow> int) \<Rightarrow> 'a list \<Rightarrow> 'a list" where
  "sortBy cmp xs = foldr (insertBy cmp) xs []"

text \<open>The memoised \<open>data\<close>: each task paired with its \<open>periodDuration\<close>.\<close>

definition data :: "zone \<Rightarrow> Task list \<Rightarrow> Period \<Rightarrow> Date \<Rightarrow> (Task \<times> int) list" where
  "data tz ts period dateCursor =
     (let filteredTasks =
            filter (\<lambda>t. snd t > 0)
              (map (\<lambda>task.
                      let relevantSessions = filter (relevantSession tz period dateCursor)
                                               (sessions task);
                          totalDuration = fold (\<lambda>x acc. acc + duration x) relevantSessions 0
                      in (task, totalDuration))
                 ts)
      in sortBy (\<lambda>a b. snd b - snd a) filteredTasks)"

section \<open>The insight service (geminiService.ts)\<close>

text \<open>
  A rejected promise is \<open>Inl\<close> of the error.  The request to the text service
  is a function of the period and of the summary the prompt is built from (for
  each task its title and the sum of its session durations); it is rejected or
  it yields a response whose \<open>text\<close> may be undefined.
\<close>

datatype js_error = Error jsstring

datatype gen_result = Rejected js_error | Response "jsstring option"

record Env =
  API_KEY :: "jsstring option"
  generateContent :: "jsstring \<Rightarrow> (jsstring \<times> int) list \<Rightarrow> gen_result"

definition summary :: "Task list \<Rightarrow> (jsstring \<times> int) list" where
  "summary ts = map (\<lambda>t. (title t, fold (\<lambda>x acc. acc + duration x) (sessions t) 0)) ts"

definition generateProductivityInsight :: "Env \<Rightarrow> Task list \<Rightarrow> jsstring \<Rightarrow> js_error + jsstring" where
  "generateProductivityInsight env ts period =
     (if \<not> truthyStr (API_KEY env) then Inl (Error (js ''API Key not found''))
      else
        case generateContent env period (summary ts) of
          Response txt \<Rightarrow>
            Inr (case txt of
                   Some t \<Rightarrow> if t \<noteq> [] then t else js ''Unable to generate insight at this time.''
                 | None \<Rightarrow> js ''Unable to generate insight at this time.'')
        | Rejected err \<Rightarrow> Inr (js ''An error occurred while fetching insights.''))"

section \<open>Definitions used in the properties\<close>

text \<open>An environment without a credential, and one whose service rejects
  every request.\<close>

definition envNoKey :: Env where
  "envNoKey = \<lparr> API_KEY = None, generateContent = (\<lambda>period sm. Response (Some (js ''ok''))) \<rparr>"

definition envFailing :: Env where
  "envFailing = \<lparr> API_KEY = Some (js ''k''),
                   generateContent = (\<lambda>period sm. Rejected (Error (js ''503''))) \<rparr>"

text \<open>A stored session is closed: its end is present and its duration is the
  difference of end and start.\<close>

definition sessionClosed :: "TimeSession \<Rightarrow> bool" where
  "sessionClosed x = (case endTime x of None \<Rightarrow> False | Some e \<Rightarrow> duration x = e - startTime x)"

definition sessionsClosed :: "AppState \<Rightarrow> bool" where
  "sessionsClosed s = list_all (\<lambda>t. list_all sessionClosed (sessions t)) (tasks s)"

text \<open>Two tasks and some application states and storage contents.\<close>

definition taskA :: Task where
  "taskA = \<lparr> taskId = js ''a'', title = js ''Reading'', color = js ''#3b82f6'',
             sessions = [], createdAt = 1000 \<rparr>"

definition taskB :: Task where
  "taskB = \<lparr> taskId = js ''b'', title = js ''Writing'', color = js ''#10b981'',
             sessions = [], createdAt = 2000 \<rparr>"

definition idleState :: AppState where
  "idleState = \<lparr> tasks = [taskA, taskB], activeTaskId = None, timerStart = None,
                 currentSessionDuration = 0, newTaskName = [], isModalOpen = False \<rparr>"

text \<open>The task list after one session is appended to the tasks with a given id.\<close>

definition appendSession :: "jsstring \<Rightarrow> TimeSession \<Rightarrow> Task list \<Rightarrow> Task list" where
  "appendSession ident x ts =
     map (\<lambda>t. if taskId t = ident then t\<lparr>sessions := sessions t @ [x]\<rparr> else t) ts"

definition busyState :: AppState where
  "busyState = \<lparr> tasks = [taskA\<lparr>sessions := [\<lparr> sessionId = js ''u0'', startTime = 100,
                                                 endTime = Some 350, duration = 250 \<rparr>]\<rparr>, taskB],
                 activeTaskId = Some (js ''a''), timerStart = Some 5000,
                 currentSessionDuration = 0, newTaskName = js ''Walk'', isModalOpen = True \<rparr>"

definition stuckStorage :: Storage where
  "stuckStorage = \<lparr> focusflow_tasks = Some [taskA], focusflow_active_id = Some (js ''a''),
                     focusflow_start_time = None \<rparr>"

definition staleStorage :: Storage where
  "staleStorage = \<lparr> focusflow_tasks = Some [taskA], focusflow_active_id = None,
                     focusflow_start_time = Some (js ''5000'') \<rparr>"


text \<open>The day number of a date on the local calendar.\<close>

definition localDay :: "zone \<Rightarrow> Date \<Rightarrow> int" where
  "localDay tz d = Day (LocalTime tz d)"

text \<open>The length of month \<open>m\<close> (0 to 11) of year \<open>y\<close>.\<close>

definition DaysInMonth :: "int \<Rightarrow> int \<Rightarrow> int" where
  "DaysInMonth y m =
     (if m = 1 then 28 + leapFlag y
      else if m = 3 \<or> m = 5 \<or> m = 8 \<or> m = 10 then 30 else 31)"

text \<open>A zone is day-stable when converting a local time to UTC and back stays
  on the same local day; this holds for any constant offset and across the
  daylight-saving changes of \<open>zoneCET2025\<close>.\<close>

definition dayStable :: "zone \<Rightarrow> bool" where
  "dayStable tz = (\<forall>L. Day (LocalTime tz (UTC tz L)) = Day L)"

text \<open>Year, month (0 to 11) and day of the month of a date.\<close>

definition dateFields :: "zone \<Rightarrow> Date \<Rightarrow> int \<times> int \<times> int" where
  "dateFields tz d = (getFullYear tz d, getMonth tz d, getDate tz d)"

text \<open>The window of the aggregation as the specification words it: the
  cursor's day, or the closed interval between the start and the end of the
  cursor's week or month.  \<open>periodDuration\<close> sums the durations of the
  sessions that have an end and start inside the window.\<close>

definition inWindow :: "zone \<Rightarrow> Period \<Rightarrow> Date \<Rightarrow> int \<Rightarrow> bool" where
  "inWindow tz period cursor t =
     (case period of
        Today \<Rightarrow> isSameDay tz t cursor
      | Week \<Rightarrow> getStartOfWeek tz cursor \<le> t \<and> t \<le> getEndOfWeek tz cursor
      | Month \<Rightarrow> getStartOfMonth tz cursor \<le> t \<and> t \<le> getEndOfMonth tz cursor)"

definition periodDuration :: "zone \<Rightarrow> Period \<Rightarrow> Date \<Rightarrow> Task \<Rightarrow> int" where
  "periodDuration tz period cursor task =
     sum_list (map duration
       (filter (\<lambda>x. endTime x \<noteq> None \<and> inWindow tz period cursor (startTime x))
          (sessions task)))"

text \<open>No stored session ended at the epoch instant 0.\<close>

definition noEpochEnd :: "Task list \<Rightarrow> bool" where
  "noEpochEnd ts = list_all (\<lambda>t. list_all (\<lambda>x. endTime x \<noteq> Some 0) (sessions t)) ts"

text \<open>China standard time, UTC+8, and three tasks with sessions around
  31 March 2025.\<close>

definition zoneCST :: zone where
  "zoneCST = fixedZone 28800000"

definition statTasks :: "Task list" where
  "statTasks =
     [\<lparr> taskId = js ''r'', title = js ''Reading'', color = js ''#3b82f6'',
         sessions = [\<lparr> sessionId = js ''s1'', startTime = 1743382800000,
                         endTime = Some 1743384300000, duration = 1500000 \<rparr>,
                     \<lparr> sessionId = js ''s2'', startTime = 1743213600000,
                         endTime = Some 1743214200000, duration = 600000 \<rparr>],
         createdAt = 1743200000000 \<rparr>,
      \<lparr> taskId = js ''w'', title = js ''Writing'', color = js ''#10b981'',
         sessions = [\<lparr> sessionId = js ''s3'', startTime = 1743390000000,
                         endTime = Some 1743393000000, duration = 3000000 \<rparr>],
         createdAt = 1743200000001 \<rparr>,
      \<lparr> taskId = js ''z'', title = js ''Walking'', color = js ''#f59e0b'',
         sessions = [\<lparr> sessionId = js ''s4'', startTime = 1743213600000,
                         endTime = Some 1743214200000, duration = 600000 \<rparr>],
         createdAt = 1743200000002 \<rparr>]"

section \<open>The calendar\<close>

lemma div_bounds:
  assumes "0 < (k::int)"
  shows "k * (a div k) \<le> a \<and> a < k * (a div k) + k"
proof -
  have "a = k * (a div k) + a mod k" by simp
  moreover have "0 \<le> a mod k" "a mod k < k" using assms by simp_all
  ultimately show ?thesis by linarith
qed

lemma div_succ:
  assumes "0 < (k::int)"
  shows "(a + 1) div k = a div k + (if (a + 1) mod k = 0 then 1 else 0)"
proof (cases "(a + 1) mod k = 0")
  case True
  have e1: "a + 1 = k * ((a + 1) div k)"
    using True by (metis add.right_neutral mult_div_mod_eq)
  have "k * (a div k) \<le> a" "a < k * (a div k) + k"
    using div_bounds[OF assms, of a] by simp_all
  then have "k * (a div k) < k * ((a + 1) div k)" "k * ((a + 1) div k) \<le> k * (a div k + 1)"
    using e1 by (simp_all add: algebra_simps)
  then have "a div k < (a + 1) div k" "(a + 1) div k \<le> a div k + 1"
    using assms by simp_all
  then show ?thesis using True by simp
next
  case False
  have m: "0 < (a + 1) mod k" using False assms by (simp add: order_less_le)
  have "a + 1 = k * ((a + 1) div k) + (a + 1) mod k" by simp
  then have "a = k * ((a + 1) div k) + ((a + 1) mod k - 1)" by linarith
  moreover have "0 \<le> (a + 1) mod k - 1" "(a + 1) mod k - 1 < k"
    using m assms pos_mod_bound[of k "a + 1"] by linarith+
  ultimately have "a div k = (a + 1) div k"
    by (metis div_pos_pos_trivial div_mult_self4 add_cancel_right_right assms less_irrefl)
  then show ?thesis using False by simp
qed

lemma lin_upper:
  "4 * a \<le> y - 1969 \<Longrightarrow> y - 1901 < 100 * b + 100 \<Longrightarrow> 400 * c \<le> y - 1601 \<Longrightarrow>
   400 * (365 * (y - 1970) + a - b + c) \<le> 146097 * (y - 1970) + (600::int)"
  unfolding right_diff_distrib distrib_left by linarith

lemma lin_lower:
  "y - 1969 < 4 * a + 4 \<Longrightarrow> 100 * b \<le> y - 1901 \<Longrightarrow> y - 1601 < 400 * c + 400 \<Longrightarrow>
   146097 * (y - 1970) - (600::int) \<le> 400 * (365 * (y - 1970) + a - b + c)"
  unfolding right_diff_distrib distrib_left by linarith

lemma DayFromYear_upper: "400 * DayFromYear y \<le> 146097 * (y - 1970) + 600"
  unfolding DayFromYear_def
  by (rule lin_upper) (simp_all add: div_bounds)

lemma DayFromYear_lower: "146097 * (y - 1970) - 600 \<le> 400 * DayFromYear y"
  unfolding DayFromYear_def
  by (rule lin_lower) (simp_all add: div_bounds)

lemma leap_step4:
  "((y::int) - 1968) div 4 = (y - 1969) div 4 + (if y mod 4 = 0 then 1 else 0)"
proof -
  have "(y - 1968) mod 4 = (y + 4 * (- 492)) mod 4" by simp
  also have "\<dots> = y mod 4" by (simp only: mod_mult_self2)
  finally show ?thesis using div_succ[of 4 "y - 1969"] by simp
qed

lemma leap_step100:
  "((y::int) - 1900) div 100 = (y - 1901) div 100 + (if y mod 100 = 0 then 1 else 0)"
proof -
  have "(y - 1900) mod 100 = (y + 100 * (- 19)) mod 100" by simp
  also have "\<dots> = y mod 100" by (simp only: mod_mult_self2)
  finally show ?thesis using div_succ[of 100 "y - 1901"] by simp
qed

lemma leap_step400:
  "((y::int) - 1600) div 400 = (y - 1601) div 400 + (if y mod 400 = 0 then 1 else 0)"
proof -
  have "(y - 1600) mod 400 = (y + 400 * (- 4)) mod 400" by simp
  also have "\<dots> = y mod 400" by (simp only: mod_mult_self2)
  finally show ?thesis using div_succ[of 400 "y - 1601"] by simp
qed

lemma mod100_mod4:
  assumes "(y::int) mod 100 = 0"
  shows "y mod 4 = 0"
proof -
  have "(100::int) dvd y" using assms by (simp add: dvd_eq_mod_eq_0)
  moreover have "(4::int) dvd 100" by simp
  ultimately have "4 dvd y" using dvd_trans by blast
  then show ?thesis by (simp add: dvd_eq_mod_eq_0)
qed

lemma mod400_mod100:
  assumes "(y::int) mod 400 = 0"
  shows "y mod 100 = 0"
proof -
  have "(400::int) dvd y" using assms by (simp add: dvd_eq_mod_eq_0)
  moreover have "(100::int) dvd 400" by simp
  ultimately have "100 dvd y" using dvd_trans by blast
  then show ?thesis by (simp add: dvd_eq_mod_eq_0)
qed

text \<open>Consecutive years are \<open>DaysInYear\<close> days apart, so \<open>DayFromYear\<close> is
  strictly increasing.\<close>

lemma DayFromYear_step: "DayFromYear (y + 1) = DayFromYear y + DaysInYear y"
proof -
  have "DayFromYear (y + 1) =
          365 * (y - 1969) + (y - 1968) div 4 - (y - 1900) div 100 + (y - 1600) div 400"
    by (simp add: DayFromYear_def)
  then show ?thesis
    using mod100_mod4[of y] mod400_mod100[of y]
    by (auto simp add: leap_step4 leap_step100 leap_step400 DayFromYear_def DaysInYear_def)
qed

lemma DayFromYear_mono_step: "DayFromYear y < DayFromYear (y + 1)"
  by (simp add: DayFromYear_step DaysInYear_def)

lemma DayFromYear_mono: "y \<le> y' \<Longrightarrow> DayFromYear y \<le> DayFromYear y'"
proof (induction y' rule: int_ge_induct)
  case base
  then show ?case by simp
next
  case (step i)
  then show ?case using DayFromYear_mono_step[of i] by simp
qed

text \<open>\<open>YearFromDay\<close> meets the specification of \<open>YearFromTime\<close>: it is the one
  year whose first day is not after the given day and whose successor's first
  day is.\<close>

lemma YearFromDay_bounds:
  "DayFromYear (YearFromDay n) \<le> n \<and> n < DayFromYear (YearFromDay n + 1)"
proof -
  define y0 where "y0 = 1970 + (400 * n) div 146097"
  have b: "146097 * (y0 - 1970) \<le> 400 * n" "400 * n < 146097 * (y0 - 1970) + 146097"
    using div_bounds[of 146097 "400 * n"] by (simp_all add: y0_def)
  have lo: "DayFromYear (y0 - 1) \<le> n"
    using DayFromYear_upper[of "y0 - 1"] b unfolding right_diff_distrib by linarith
  have hi: "n < DayFromYear (y0 + 2)"
    using DayFromYear_lower[of "y0 + 2"] b unfolding right_diff_distrib distrib_left by linarith
  have hi': "n < DayFromYear (2 + y0)" using hi by (simp add: add.commute)
  show ?thesis
    unfolding YearFromDay_def y0_def[symmetric] Let_def
    using lo hi' by auto
qed

lemma YearFromDay_unique:
  assumes "DayFromYear y \<le> n" "n < DayFromYear (y + 1)"
  shows "YearFromDay n = y"
proof -
  let ?z = "YearFromDay n"
  have z: "DayFromYear ?z \<le> n" "n < DayFromYear (?z + 1)"
    using YearFromDay_bounds by simp_all
  have "\<not> ?z < y"
  proof
    assume "?z < y"
    then have "DayFromYear (?z + 1) \<le> DayFromYear y" using DayFromYear_mono by simp
    then show False using z assms by linarith
  qed
  moreover have "\<not> y < ?z"
  proof
    assume "y < ?z"
    then have "DayFromYear (y + 1) \<le> DayFromYear ?z" using DayFromYear_mono by simp
    then show False using z assms by linarith
  qed
  ultimately show ?thesis by simp
qed

section \<open>Calendar fields\<close>


lemma DaysInYear_leapFlag: "DaysInYear y = 365 + leapFlag y"
  by (simp add: DaysInYear_def leapFlag_def)

lemma leapFlag_cases: "leapFlag y = 0 \<or> leapFlag y = 1"
  by (simp add: leapFlag_def)

lemma monthOfDay_range: "0 \<le> monthOfDay d L \<and> monthOfDay d L \<le> 11"
  by (simp add: monthOfDay_def)

lemma MonthFromTime_range: "0 \<le> MonthFromTime t \<and> MonthFromTime t \<le> 11"
  by (simp add: MonthFromTime_def monthOfDay_range)

text \<open>Setting the day of the month to the current one plus \<open>k\<close> moves the
  day number by \<open>k\<close>.\<close>

lemma MakeDay_fields:
  "MakeDay (YearFromTime t) (MonthFromTime t) dt = Day t + (dt - DateFromTime t)"
proof -
  have r: "0 \<le> MonthFromTime t" "MonthFromTime t < 12"
    using MonthFromTime_range[of t] by simp_all
  then have "MonthFromTime t div 12 = 0" "MonthFromTime t mod 12 = MonthFromTime t"
    by simp_all
  then show ?thesis
    by (simp add: MakeDay_def DateFromTime_def DayWithinYear_def InLeapYear_def Let_def)
qed

lemma Day_MakeDate: "0 \<le> tm \<Longrightarrow> tm < msPerDay \<Longrightarrow> Day (MakeDate d tm) = d"
  by (simp add: Day_def MakeDate_def msPerDay_def add.commute div_pos_pos_trivial)


lemma TimeWithinDay_range: "0 \<le> TimeWithinDay t \<and> TimeWithinDay t < msPerDay"
  by (simp add: TimeWithinDay_def msPerDay_def)




lemma WeekDay_range: "0 \<le> WeekDay t \<and> WeekDay t < 7"
  by (simp add: WeekDay_def)

lemma MakeTime_midnight: "MakeTime 0 0 0 0 = 0"
  by (simp add: MakeTime_def)






lemma month_cases:
  assumes "0 \<le> (m::int)" "m \<le> 11"
  shows "m = 0 \<or> m = 1 \<or> m = 2 \<or> m = 3 \<or> m = 4 \<or> m = 5 \<or> m = 6 \<or> m = 7 \<or> m = 8
         \<or> m = 9 \<or> m = 10 \<or> m = 11"
  using assms by arith


lemma monthStart_last: "monthStart 11 (leapFlag y) + DaysInMonth y 11 = DaysInYear y"
  by (simp add: monthStart_def DaysInMonth_def DaysInYear_leapFlag)

lemma monthOfDay_monthStart:
  assumes "0 \<le> m" "m \<le> 11" "0 \<le> k" "k < DaysInMonth y m"
  shows "monthOfDay (monthStart m (leapFlag y) + k) (leapFlag y) = m"
  using month_cases[OF assms(1,2)] leapFlag_cases[of y] assms(3,4)
  by (elim disjE; simp add: monthStart_def DaysInMonth_def monthOfDay_def)

lemma monthStart_bound:
  assumes "0 \<le> m" "m \<le> 11" "0 \<le> k" "k < DaysInMonth y m"
  shows "0 \<le> monthStart m (leapFlag y) + k \<and> monthStart m (leapFlag y) + k < DaysInYear y"
  using month_cases[OF assms(1,2)] leapFlag_cases[of y] assms(3,4)
  by (elim disjE; simp add: monthStart_def DaysInMonth_def DaysInYear_leapFlag)

text \<open>The fields of the day that is \<open>k\<close> days after the first of month \<open>m\<close> of
  year \<open>y\<close>, while \<open>k\<close> stays inside that month.\<close>

lemma fields_of_day:
  assumes "0 \<le> m" "m \<le> 11" "0 \<le> k" "k < DaysInMonth y m"
    and "Day t = DayFromYear y + monthStart m (leapFlag y) + k"
  shows "YearFromTime t = y \<and> MonthFromTime t = m \<and> DateFromTime t = k + 1"
proof -
  have b: "0 \<le> monthStart m (leapFlag y) + k" "monthStart m (leapFlag y) + k < DaysInYear y"
    using monthStart_bound[OF assms(1-4)] by simp_all
  have y: "YearFromTime t = y"
    unfolding YearFromTime_def
    by (rule YearFromDay_unique) (use b assms(5) DayFromYear_step[of y] in simp_all)
  have dw: "DayWithinYear t = monthStart m (leapFlag y) + k"
    by (simp add: DayWithinYear_def y assms(5))
  have mo: "MonthFromTime t = m"
    by (simp add: MonthFromTime_def dw InLeapYear_def y monthOfDay_monthStart[OF assms(1-4)])
  have "DateFromTime t = k + 1"
    by (simp add: DateFromTime_def dw mo InLeapYear_def y)
  then show ?thesis using y mo by simp
qed



section \<open>Zones\<close>


lemma localDay_UTC:
  assumes "dayStable tz" "0 \<le> tm" "tm < msPerDay"
  shows "localDay tz (UTC tz (MakeDate n tm)) = n"
  using assms by (simp add: localDay_def dayStable_def Day_MakeDate)

lemma localDay_setDate:
  assumes "dayStable tz"
  shows "localDay tz (setDate tz d dt) = localDay tz d + (dt - getDate tz d)"
  using localDay_UTC[OF assms] TimeWithinDay_range[of "LocalTime tz d"]
  by (simp add: setDate_def Let_def MakeDay_fields getDate_def localDay_def)


lemma localDay_newDate:
  assumes "dayStable tz"
  shows "localDay tz (newDate tz y m dt) =
           MakeDay (if 0 \<le> y \<and> y \<le> 99 then 1900 + y else y) m dt"
  using localDay_UTC[OF assms, of 0] 
  by (simp add: newDate_def Let_def MakeTime_midnight msPerDay_def)

text \<open>The calendar fields of a date depend on its local day number only.\<close>

lemma fields_localDay:
  assumes "0 \<le> m" "m \<le> 11" "0 \<le> k" "k < DaysInMonth y m"
    and "localDay tz d = DayFromYear y + monthStart m (leapFlag y) + k"
  shows "getFullYear tz d = y \<and> getMonth tz d = m \<and> getDate tz d = k + 1"
  using fields_of_day[OF assms(1-4), of "LocalTime tz d"] assms(5)
  by (simp add: localDay_def getFullYear_def getMonth_def getDate_def)

lemma getDay_localDay: "getDay tz d = (localDay tz d + 4) mod 7"
  by (simp add: getDay_def WeekDay_def localDay_def)

lemma gridLoop_eq:
  "i \<le> 42 \<Longrightarrow>
   gridLoop tz sd i grid =
     grid @ map (\<lambda>j. setDate tz sd (getDate tz sd + int j)) [i..<42]"
proof (induction tz sd i grid rule: gridLoop.induct)
  case (1 tz startDate i grid)
  show ?case
  proof (cases "i < 42")
    case True
    then have "[i..<42] = i # [i + 1..<42]" by (simp add: upt_conv_Cons)
    then show ?thesis
      using True "1.IH"[OF True] by (simp del: gridLoop.simps add: gridLoop.simps[of tz startDate i])
  next
    case False
    then show ?thesis by (subst gridLoop.simps) (simp del: gridLoop.simps)
  qed
qed

lemma getCalendarGrid_eq:
  "getCalendarGrid tz y m =
     (let first = newDate tz y m 1;
          sd = setDate tz first (getDate tz first - getDay tz first)
      in map (\<lambda>j. setDate tz sd (getDate tz sd + int j)) [0..<42])"
  by (simp add: getCalendarGrid_def Let_def gridLoop_eq del: gridLoop.simps)

lemma getCalendarGrid_nth:
  assumes "i < 42"
  shows "getCalendarGrid tz y m ! i =
           setDate tz (setDate tz (newDate tz y m 1)
                         (getDate tz (newDate tz y m 1) - getDay tz (newDate tz y m 1)))
             (getDate tz (setDate tz (newDate tz y m 1)
                            (getDate tz (newDate tz y m 1) - getDay tz (newDate tz y m 1)))
              + int i)"
  using assms by (simp only: getCalendarGrid_eq Let_def) (simp del: upt_Suc)

lemma MakeDay_first:
  "MakeDay y m 1 = DayFromYear (y + m div 12) + monthStart (m mod 12) (leapFlag (y + m div 12))"
  by (simp add: MakeDay_def Let_def)

lemma DaysInMonth_pos: "0 < DaysInMonth y m"
  using leapFlag_cases[of y] by (auto simp add: DaysInMonth_def)

lemma Day_eqI:
  assumes "n * 86400000 \<le> t" "t < n * 86400000 + 86400000"
  shows "Day t = n"
proof -
  have "Day (MakeDate n (t - n * 86400000)) = n"
    using assms by (intro Day_MakeDate) (simp_all add: msPerDay_def)
  then show ?thesis by (simp add: MakeDate_def msPerDay_def)
qed

text \<open>Local times of the skipped hour of 30 March 2025 map to the hour after
  it, on the same day; every other local time maps to itself.\<close>

lemma dayStable_zoneCET2025: "dayStable zoneCET2025"
  unfolding dayStable_def
proof
  fix L :: int
  show "Day (LocalTime zoneCET2025 (UTC zoneCET2025 L)) = Day L"
  proof (cases "1743300000000 \<le> L \<and> L < 1743303600000")
    case True
    then have "LocalTime zoneCET2025 (UTC zoneCET2025 L) = L + 3600000"
      by (simp add: LocalTime_def UTC_def zoneCET2025_def)
    moreover have "Day L = 20177" using True by (intro Day_eqI) simp_all
    moreover have "Day (L + 3600000) = 20177" using True by (intro Day_eqI) simp_all
    ultimately show ?thesis by simp
  next
    case False
    then have "LocalTime zoneCET2025 (UTC zoneCET2025 L) = L"
      by (auto simp add: LocalTime_def UTC_def zoneCET2025_def)
    then show ?thesis by simp
  qed
qed









section \<open>The insight service\<close>

text \<open>
  C1, as stated, fails: without a credential the call is rejected with the
  error \<open>API Key not found\<close>, which is thrown before the \<open>try\<close> block.
\<close>

theorem C1_counterexample:
  "generateProductivityInsight envNoKey [] (js ''Today'') = Inl (Error (js ''API Key not found''))"
  by (simp add: generateProductivityInsight_def envNoKey_def truthyStr_def)

text \<open>
  C1, amended: when a credential is present the call never rejects; a failed
  request gives the fixed string \<open>An error occurred while fetching insights.\<close>,
  a response without text the fixed string \<open>Unable to generate insight at this
  time.\<close>, and any other response its text.
\<close>

theorem C1_amended:
  assumes "truthyStr (API_KEY env)"
  shows "generateProductivityInsight env ts period =
           Inr (case generateContent env period (summary ts) of
                  Rejected err \<Rightarrow> js ''An error occurred while fetching insights.''
                | Response txt \<Rightarrow>
                    if truthyStr txt then the txt
                    else js ''Unable to generate insight at this time.'')"
  using assms
  by (simp add: generateProductivityInsight_def truthyStr_def split: gen_result.splits option.splits)

text \<open>C1, amended, at an environment whose service rejects the request.\<close>

theorem C1_amended_witness:
  "truthyStr (API_KEY envFailing) \<and>
   generateProductivityInsight envFailing [] (js ''Today'') =
     Inr (js ''An error occurred while fetching insights.'')"
proof -
  have k: "truthyStr (API_KEY envFailing)"
    by (simp add: envFailing_def truthyStr_def js_def)
  show ?thesis
    using k C1_amended [OF k, of "[]" "js ''Today''"]
    by (simp add: envFailing_def)
qed

section \<open>The task list\<close>

text \<open>
  C8: the count shown for a task is the number of all its stored sessions, plus
  one exactly when the task is the active one; neither the zone nor the
  current instant enters it.
\<close>

theorem C8_count:
  "snd (getTaskTodayStats tz now s task) =
     int (length (sessions task)) + (if isActive s task then 1 else 0)"
  by (simp add: getTaskTodayStats_def isActive_def Let_def)

lemma trim_empty_iff: "trim s = [] \<longleftrightarrow> list_all isWhiteSpace s"
proof
  assume t: "trim s = []"
  show "list_all isWhiteSpace s"
  proof (rule ccontr)
    assume "\<not> list_all isWhiteSpace s"
    then have ne: "dropWhile isWhiteSpace s \<noteq> []"
      by (simp add: list_all_iff dropWhile_eq_Nil_conv)
    then have "\<not> isWhiteSpace (hd (dropWhile isWhiteSpace s))"
      by (rule hd_dropWhile)
    moreover have "hd (dropWhile isWhiteSpace s) \<in> set (rev (dropWhile isWhiteSpace s))"
      using ne by simp
    ultimately have "dropWhile isWhiteSpace (rev (dropWhile isWhiteSpace s)) \<noteq> []"
      by (auto simp add: dropWhile_eq_Nil_conv)
    then show False using t by (simp add: trim_def)
  qed
next
  assume "list_all isWhiteSpace s"
  then have "dropWhile isWhiteSpace s = []"
    by (simp add: list_all_iff dropWhile_eq_Nil_conv)
  then show "trim s = []" unfolding trim_def by (simp only: rev.simps dropWhile.simps)
qed

text \<open>
  C9: with a title that is empty or all white space, submitting changes
  nothing; with any other title the task list grows at its end by one task
  that has this title and no sessions.
\<close>

theorem C9_addTask:
  "(if list_all isWhiteSpace (newTaskName s)
    then addTask uuid col now s = s
    else tasks (addTask uuid col now s) =
           tasks s @ [\<lparr> taskId = uuid, title = newTaskName s, color = col,
                        sessions = [], createdAt = now \<rparr>])"
  by (simp add: addTask_def trim_empty_iff Let_def)

section \<open>The timer state machine\<close>

lemma stopTimer_idle: "\<not> truthyStr (activeTaskId s) \<Longrightarrow> stopTimer now uuid s = s"
  by (auto simp add: stopTimer_def truthyStr_def split: option.splits)

lemma stopTimer_nostart: "\<not> truthyNum (timerStart s) \<Longrightarrow> stopTimer now uuid s = s"
  by (auto simp add: stopTimer_def truthyNum_def split: option.splits)

lemma stopTimer_running:
  assumes "activeTaskId s = Some a" "a \<noteq> []" "timerStart s = Some st" "st \<noteq> 0"
  shows "stopTimer now uuid s =
           s\<lparr>tasks := appendSession a \<lparr> sessionId = uuid, startTime = st, endTime = Some now,
                                         duration = now - st \<rparr> (tasks s),
             activeTaskId := None, timerStart := None, currentSessionDuration := 0\<rparr>"
  using assms by (simp add: stopTimer_def appendSession_def Let_def)

text \<open>
  C4: after \<open>start(a)\<close> at the reading \<open>t1\<close>, \<open>start(b)\<close> appends to the tasks
  with id \<open>a\<close> exactly one session, from \<open>t1\<close> to the reading \<open>t2\<close> that
  \<open>stopTimer\<close> takes inside \<open>start(b)\<close>, with duration \<open>t2 - t1\<close>; every other
  task, \<open>b\<close> included, keeps its sessions; the state is then running \<open>b\<close> since
  the reading \<open>t3\<close>.  Stopping with no active task changes nothing.  Task ids
  are not empty and the clock does not read 0.
\<close>

theorem C4_start_start:
  assumes "a \<noteq> []" and "t1 \<noteq> 0" and "a \<noteq> b" and "\<not> truthyStr (activeTaskId s)"
  shows "tasks (startTimer b t2 u2 t3 (startTimer a t0 u1 t1 s0)) =
           appendSession a \<lparr> sessionId = u2, startTime = t1, endTime = Some t2,
                              duration = t2 - t1 \<rparr> (tasks (startTimer a t0 u1 t1 s0))
         \<and> activeTaskId (startTimer b t2 u2 t3 (startTimer a t0 u1 t1 s0)) = Some b
         \<and> timerStart (startTimer b t2 u2 t3 (startTimer a t0 u1 t1 s0)) = Some t3
         \<and> stopTimer now u s = s"
proof -
  let ?s1 = "startTimer a t0 u1 t1 s0"
  have a1: "activeTaskId ?s1 = Some a" and st1: "timerStart ?s1 = Some t1"
    by (simp_all add: startTimer_def Let_def)
  have tr: "truthyStr (activeTaskId ?s1)" using a1 assms(1) by (simp add: truthyStr_def)
  have "startTimer b t2 u2 t3 ?s1 = (stopTimer t2 u2 ?s1)\<lparr>activeTaskId := Some b, timerStart := Some t3\<rparr>"
    using tr by (simp add: startTimer_def[of b] Let_def)
  then show ?thesis
    using stopTimer_running[OF a1 assms(1) st1 assms(2), of t2 u2] stopTimer_idle[OF assms(4)]
    by simp
qed

lemma appendSession_other:
  "taskId t \<noteq> ident \<Longrightarrow> t \<in> set ts \<Longrightarrow> t \<in> set (appendSession ident x ts)"
  by (auto simp add: appendSession_def)

text \<open>C4 at two tasks, from the idle state.\<close>

theorem C4_start_start_witness:
  "js ''a'' \<noteq> [] \<and> (5000::int) \<noteq> 0 \<and> js ''a'' \<noteq> js ''b'' \<and> \<not> truthyStr (activeTaskId idleState)
   \<and> tasks (startTimer (js ''b'') 9000 (js ''u2'') 9001 (startTimer (js ''a'') 5000 (js ''u1'') 5000 idleState)) =
       [taskA\<lparr>sessions := [\<lparr> sessionId = js ''u2'', startTime = 5000, endTime = Some 9000,
                               duration = 4000 \<rparr>]\<rparr>, taskB]
   \<and> stopTimer 7000 (js ''u'') idleState = idleState"
proof -
  have h1: "js ''a'' \<noteq> []" by (simp add: js_def)
  have h2: "(5000::int) \<noteq> 0" by simp
  have h3: "js ''a'' \<noteq> js ''b''" by (simp add: js_def)
  have h4: "\<not> truthyStr (activeTaskId idleState)" by (simp add: idleState_def truthyStr_def)
  have t: "tasks (startTimer (js ''a'') 5000 (js ''u1'') 5000 idleState) = [taskA, taskB]"
    by (simp add: startTimer_def idleState_def truthyStr_def Let_def)
  show ?thesis
    using h1 h2 h3 h4 C4_start_start [OF h1 h2 h3 h4, of 9000 "js ''u2''" 9001 5000 "js ''u1''" idleState 7000 "js ''u''"]
    by (simp add: t appendSession_def taskA_def taskB_def)
qed

lemma closed_stopTimer: "sessionsClosed s \<Longrightarrow> sessionsClosed (stopTimer now uuid s)"
  by (auto simp add: sessionsClosed_def stopTimer_def sessionClosed_def list_all_iff Let_def
      split: option.splits)

lemma closed_startTimer: "sessionsClosed s \<Longrightarrow> sessionsClosed (startTimer ident n1 uuid n2 s)"
  using closed_stopTimer[of s n1 uuid]
  by (simp add: startTimer_def sessionsClosed_def Let_def)

lemma closed_toggleTimer: "sessionsClosed s \<Longrightarrow> sessionsClosed (toggleTimer ident n1 uuid n2 s)"
  by (simp add: toggleTimer_def closed_stopTimer closed_startTimer)

lemma closed_addTask: "sessionsClosed s \<Longrightarrow> sessionsClosed (addTask uuid col now s)"
  by (simp add: addTask_def sessionsClosed_def Let_def)

lemma closed_deleteTask: "sessionsClosed s \<Longrightarrow> sessionsClosed (deleteTask ident now uuid s)"
  by (auto simp add: deleteTask_def sessionsClosed_def Let_def list_all_iff)

text \<open>
  C5: if every stored session has an end and a duration equal to end minus
  start, the same holds after adding a task, starting, stopping and toggling
  a timer, and deleting a task.
\<close>

theorem C5_sessions_closed:
  assumes "sessionsClosed s"
  shows "sessionsClosed (addTask uuid col now s)
       \<and> sessionsClosed (startTimer ident now uuid now' s)
       \<and> sessionsClosed (stopTimer now uuid s)
       \<and> sessionsClosed (toggleTimer ident now uuid now' s)
       \<and> sessionsClosed (deleteTask ident now uuid s)"
  using assms
  by (simp add: closed_addTask closed_startTimer closed_stopTimer closed_toggleTimer
      closed_deleteTask)

text \<open>C5 at a running state with one stored session: stopping stores a second
  closed session.\<close>

theorem C5_sessions_closed_witness:
  "sessionsClosed busyState
   \<and> sessionsClosed (stopTimer 9000 (js ''u1'') busyState)
   \<and> map sessions (tasks (stopTimer 9000 (js ''u1'') busyState)) =
       [[\<lparr> sessionId = js ''u0'', startTime = 100, endTime = Some 350, duration = 250 \<rparr>,
         \<lparr> sessionId = js ''u1'', startTime = 5000, endTime = Some 9000, duration = 4000 \<rparr>], []]"
proof -
  have h: "sessionsClosed busyState"
    by (simp add: sessionsClosed_def busyState_def sessionClosed_def taskA_def taskB_def)
  have e: "map sessions (tasks (stopTimer 9000 (js ''u1'') busyState)) =
       [[\<lparr> sessionId = js ''u0'', startTime = 100, endTime = Some 350, duration = 250 \<rparr>,
         \<lparr> sessionId = js ''u1'', startTime = 5000, endTime = Some 9000, duration = 4000 \<rparr>], []]"
    by (simp add: stopTimer_def busyState_def taskA_def taskB_def js_def Let_def)
  show ?thesis
    using h e C5_sessions_closed [OF h, of "js ''u1''" "js ''c''" 9000 "js ''b''" 9001]
    by simp
qed

text \<open>
  C2, as stated, fails: rehydrated with an active id and no start time, the
  task is still the active one for the task list (its count includes a
  running session) and pressing its button stops nothing.
\<close>

theorem C2_counterexample:
  "isActive (rehydrate stuckStorage) taskA
   \<and> snd (getTaskTodayStats (fixedZone 0) 1000 (rehydrate stuckStorage) taskA) = 1
   \<and> toggleTimer (js ''a'') 1000 (js ''u'') 1000 (rehydrate stuckStorage) = rehydrate stuckStorage"
  by (simp add: isActive_def rehydrate_def stuckStorage_def taskA_def getTaskTodayStats_def
      toggleTimer_def stopTimer_def Let_def)

lemma rehydrate_inconsistent:
  assumes "(focusflow_active_id sto = None) \<noteq> (focusflow_start_time sto = None)"
  shows "\<not> intervalActive (rehydrate sto)"
  using assms
  by (auto simp add: intervalActive_def rehydrate_def truthyStr_def truthyNum_def
      split: option.splits)

text \<open>
  C2, amended: rehydrated with exactly one of the active id and the start
  time present, no interval runs and the displayed duration stays 0, stopping
  changes nothing and appends no session, and starting a task only sets the
  active id and the start time; if the active id is the absent one, no task
  is treated as active.
\<close>

theorem C2_amended:
  assumes "(focusflow_active_id sto = None) \<noteq> (focusflow_start_time sto = None)"
  shows "\<not> intervalActive (rehydrate sto)
       \<and> currentSessionDuration (timerEffect (rehydrate sto)) = 0
       \<and> tick now (rehydrate sto) = rehydrate sto
       \<and> stopTimer now uuid (rehydrate sto) = rehydrate sto
       \<and> startTimer ident now uuid now' (rehydrate sto) =
           (rehydrate sto)\<lparr>activeTaskId := Some ident, timerStart := Some now'\<rparr>
       \<and> (focusflow_active_id sto = None \<longrightarrow>
            \<not> isActive (rehydrate sto) task
            \<and> snd (getTaskTodayStats tz now (rehydrate sto) task) = int (length (sessions task)))"
proof -
  have n: "\<not> intervalActive (rehydrate sto)" using assms by (rule rehydrate_inconsistent)
  have st: "stopTimer now uuid (rehydrate sto) = rehydrate sto"
    using n stopTimer_idle[of "rehydrate sto"] stopTimer_nostart[of "rehydrate sto"]
    by (auto simp add: intervalActive_def)
  have tk: "tick now (rehydrate sto) = rehydrate sto"
    using n by (simp add: tick_def split: option.splits)
  have ef: "currentSessionDuration (timerEffect (rehydrate sto)) = 0"
    using n by (simp add: timerEffect_def)
  have sr: "startTimer ident now uuid now' (rehydrate sto) =
           (rehydrate sto)\<lparr>activeTaskId := Some ident, timerStart := Some now'\<rparr>"
    using st by (simp add: startTimer_def Let_def)
  have ia: "focusflow_active_id sto = None \<longrightarrow>
            \<not> isActive (rehydrate sto) task
            \<and> snd (getTaskTodayStats tz now (rehydrate sto) task) = int (length (sessions task))"
    by (simp add: isActive_def rehydrate_def getTaskTodayStats_def Let_def)
  show ?thesis using n st tk ef sr ia by blast
qed

lemma parseInt_5000: "parseInt (js ''5000'') = Some 5000"
  by (simp add: parseInt_def js_def trimStart_def isWhiteSpace_def isDigit_def Let_def)

text \<open>C2, amended, at a storage that holds a start time and no active id.\<close>

theorem C2_amended_witness:
  "(focusflow_active_id staleStorage = None) \<noteq> (focusflow_start_time staleStorage = None)
   \<and> focusflow_active_id staleStorage = None
   \<and> timerStart (rehydrate staleStorage) = Some 5000
   \<and> stopTimer 9000 (js ''u'') (rehydrate staleStorage) = rehydrate staleStorage
   \<and> \<not> isActive (rehydrate staleStorage) taskA
   \<and> snd (getTaskTodayStats (fixedZone 0) 9000 (rehydrate staleStorage) taskA) = 0"
proof -
  have h: "(focusflow_active_id staleStorage = None) \<noteq> (focusflow_start_time staleStorage = None)"
    by (simp add: staleStorage_def)
  have a: "focusflow_active_id staleStorage = None" by (simp add: staleStorage_def)
  have p: "timerStart (rehydrate staleStorage) = Some 5000"
    by (simp add: rehydrate_def staleStorage_def parseInt_5000) (simp add: js_def)
  have l: "sessions taskA = []" by (simp add: taskA_def)
  show ?thesis
    using h a p l C2_amended [OF h, of 9000 "js ''u''" "js ''b''" 9001 taskA "fixedZone 0"]
    by simp
qed


section \<open>Weeks, the calendar grid and month navigation\<close>



text \<open>
  C7, as stated, fails for two kinds of input.  In Samoa, whose calendar has no
  30 December 2011, the grid of December 2011 holds the same instant in cells
  33 and 34: 29 December is followed by 31 December twice.  And a year from 0
  to 99 is read as 1900 + year: the grid of month 0 of year 50 begins with
  1 January 1950.
\<close>

theorem C7_counterexample:
  "getCalendarGrid zoneApia2011 2011 11 ! 33 = getCalendarGrid zoneApia2011 2011 11 ! 34
   \<and> dateFields zoneApia2011 (getCalendarGrid zoneApia2011 2011 11 ! 32) = (2011, 11, 29)
   \<and> dateFields zoneApia2011 (getCalendarGrid zoneApia2011 2011 11 ! 33) = (2011, 11, 31)
   \<and> dateFields zoneCST (getCalendarGrid zoneCST 50 0 ! 0) = (1950, 0, 1)"
  by (simp only: getCalendarGrid_nth [of 32] getCalendarGrid_nth [of 33]
        getCalendarGrid_nth [of 34] getCalendarGrid_nth [of 0]) code_simp

text \<open>
  C7, amended: in a day-stable zone the grid has 42 dates; each is on the local
  day after its predecessor's; the first is a Sunday, as many days before the
  first of the month as that day's weekday index, which is at most 6; so the
  date at that index is the first day of month \<open>m mod 12\<close> of the year
  \<open>y + m div 12\<close>, where a year \<open>y\<close> from 0 to 99 counts as \<open>1900 + y\<close>.
\<close>

theorem C7_amended:
  assumes "dayStable tz"
  shows "length (getCalendarGrid tz y m) = 42
   \<and> (\<forall>i<41. localDay tz (getCalendarGrid tz y m ! Suc i)
                 = localDay tz (getCalendarGrid tz y m ! i) + 1)
   \<and> getDay tz (getCalendarGrid tz y m ! 0) = 0
   \<and> 0 \<le> getDay tz (newDate tz y m 1) \<and> getDay tz (newDate tz y m 1) \<le> 6
   \<and> localDay tz (getCalendarGrid tz y m ! 0)
       = localDay tz (newDate tz y m 1) - getDay tz (newDate tz y m 1)
   \<and> localDay tz (getCalendarGrid tz y m ! nat (getDay tz (newDate tz y m 1)))
       = localDay tz (newDate tz y m 1)
   \<and> getDate tz (getCalendarGrid tz y m ! nat (getDay tz (newDate tz y m 1))) = 1
   \<and> getMonth tz (getCalendarGrid tz y m ! nat (getDay tz (newDate tz y m 1))) = m mod 12
   \<and> getFullYear tz (getCalendarGrid tz y m ! nat (getDay tz (newDate tz y m 1)))
       = (if 0 \<le> y \<and> y \<le> 99 then 1900 + y else y) + m div 12"
proof -
  let ?first = "newDate tz y m 1"
  let ?w = "getDay tz ?first"
  let ?sd = "setDate tz ?first (getDate tz ?first - ?w)"
  let ?g = "getCalendarGrid tz y m"
  have g: "?g = map (\<lambda>j. setDate tz ?sd (getDate tz ?sd + int j)) [0..<42]"
    by (simp add: getCalendarGrid_eq Let_def)
  have len: "length ?g = 42" by (simp add: g)
  have sd: "localDay tz ?sd = localDay tz ?first - ?w"
    by (simp add: localDay_setDate[OF assms])
  have nth: "localDay tz (?g ! i) = localDay tz ?first - ?w + int i" if "i < 42" for i
  proof -
    have "?g ! i = setDate tz ?sd (getDate tz ?sd + int i)"
      using that by (simp only: g) (simp del: upt_Suc)
    then show ?thesis by (simp add: localDay_setDate[OF assms] sd)
  qed
  have w: "0 \<le> ?w" "?w \<le> 6"
    using WeekDay_range[of "LocalTime tz ?first"] by (simp_all add: getDay_def)
  have consecutive: "\<forall>i<41. localDay tz (?g ! Suc i) = localDay tz (?g ! i) + 1"
    using nth by simp
  have sunday: "getDay tz (?g ! 0) = 0"
  proof -
    have "getDay tz (?g ! 0) = (localDay tz ?first - ?w + 4) mod 7"
      using nth[of 0] by (simp add: getDay_localDay)
    also have "\<dots> = (localDay tz ?first + 4 - (localDay tz ?first + 4) mod 7) mod 7"
      by (simp add: getDay_localDay algebra_simps)
    also have "\<dots> = 0" by (simp add: minus_mod_eq_mult_div)
    finally show ?thesis .
  qed
  have first0: "localDay tz (?g ! 0) = localDay tz ?first - ?w"
    using nth[of 0] by simp
  have wlt: "nat ?w < 42" using w by simp
  have atw: "localDay tz (?g ! nat ?w) = localDay tz ?first"
    using nth[OF wlt] w by simp
  let ?yr = "(if 0 \<le> y \<and> y \<le> 99 then 1900 + y else y) + m div 12"
  have fd: "localDay tz (?g ! nat ?w) =
              DayFromYear ?yr + monthStart (m mod 12) (leapFlag ?yr) + 0"
    by (simp only: atw localDay_newDate[OF assms] MakeDay_first)
  have fields: "getDate tz (?g ! nat ?w) = 1 \<and> getMonth tz (?g ! nat ?w) = m mod 12
                \<and> getFullYear tz (?g ! nat ?w) = ?yr"
    using fields_localDay[OF _ _ _ DaysInMonth_pos fd] by simp
  show ?thesis
    using len consecutive sunday w first0 atw fields by blast
qed

text \<open>C7, amended, for March 2025 in central Europe: the first is a Saturday,
  at index 6.\<close>

theorem C7_amended_witness:
  "dayStable zoneCET2025
   \<and> length (getCalendarGrid zoneCET2025 2025 2) = 42
   \<and> getDay zoneCET2025 (newDate zoneCET2025 2025 2 1) = 6
   \<and> getDay zoneCET2025 (getCalendarGrid zoneCET2025 2025 2 ! 0) = 0
   \<and> getDate zoneCET2025 (getCalendarGrid zoneCET2025 2025 2 ! 6) = 1
   \<and> getFullYear zoneCET2025 (getCalendarGrid zoneCET2025 2025 2 ! 6) = 2025"
proof -
  have h: "dayStable zoneCET2025" by (rule dayStable_zoneCET2025)
  have w: "getDay zoneCET2025 (newDate zoneCET2025 2025 2 1) = 6" by code_simp
  show ?thesis
    using h w C7_amended [OF h, of 2025 2]
    by simp
qed




section \<open>The aggregation of the statistics view\<close>

lemma fold_plus: "fold (\<lambda>x acc. acc + f x) xs (a::int) = a + sum_list (map f xs)"
  by (induction xs arbitrary: a) simp_all

lemma relevantSession_iff:
  assumes "endTime x \<noteq> Some 0"
  shows "relevantSession tz period cursor x
           \<longleftrightarrow> endTime x \<noteq> None \<and> inWindow tz period cursor (startTime x)"
  using assms
  by (cases period; cases "endTime x")
     (simp_all add: relevantSession_def inWindow_def truthyNum_def Let_def)

lemma totalDuration_eq:
  assumes "list_all (\<lambda>x. endTime x \<noteq> Some 0) (sessions task)"
  shows "fold (\<lambda>x acc. acc + duration x)
           (filter (relevantSession tz period cursor) (sessions task)) 0
         = periodDuration tz period cursor task"
proof -
  have "filter (relevantSession tz period cursor) (sessions task) =
        filter (\<lambda>x. endTime x \<noteq> None \<and> inWindow tz period cursor (startTime x)) (sessions task)"
    using assms by (intro filter_cong) (simp_all add: list_all_iff relevantSession_iff)
  then show ?thesis by (simp add: fold_plus periodDuration_def)
qed

lemma insertBy_insort:
  "insertBy (\<lambda>a b. snd b - snd a) x ys = insort_key (\<lambda>p. - snd p) x ys"
  by (induction ys) simp_all

lemma sortBy_sort_key:
  "sortBy (\<lambda>a b. snd b - snd a) xs = sort_key (\<lambda>p. - snd p) xs"
  by (induction xs) (simp_all add: sortBy_def sort_key_def insertBy_insort)

lemma data_eq:
  assumes "noEpochEnd ts"
  shows "data tz ts period cursor =
           sort_key (\<lambda>p. - snd p)
             (map (\<lambda>t. (t, periodDuration tz period cursor t))
                (filter (\<lambda>t. 0 < periodDuration tz period cursor t) ts))"
proof -
  have m: "map (\<lambda>task. (task, fold (\<lambda>x acc. acc + duration x)
                  (filter (relevantSession tz period cursor) (sessions task)) 0)) ts
           = map (\<lambda>t. (t, periodDuration tz period cursor t)) ts"
    using assms by (intro map_cong) (simp_all add: noEpochEnd_def list_all_iff totalDuration_eq)
  have f: "filter (\<lambda>p. 0 < snd p) (map (\<lambda>t. (t, periodDuration tz period cursor t)) ts)
           = map (\<lambda>t. (t, periodDuration tz period cursor t))
               (filter (\<lambda>t. 0 < periodDuration tz period cursor t) ts)"
    by (simp add: filter_map comp_def)
  show ?thesis
    by (simp add: data_def Let_def sortBy_sort_key m f)
qed

text \<open>
  C3: the result holds exactly the tasks whose \<open>periodDuration\<close> is positive,
  each paired with it, in descending order of duration, and tasks of equal
  duration in the order of the collection.  No stored session has the end 0.
\<close>

theorem C3_aggregator:
  assumes "noEpochEnd ts"
  shows "set (data tz ts period cursor) =
           {(t, periodDuration tz period cursor t) | t.
              t \<in> set ts \<and> 0 < periodDuration tz period cursor t}
   \<and> length (data tz ts period cursor) =
       length (filter (\<lambda>t. 0 < periodDuration tz period cursor t) ts)
   \<and> sorted_wrt (\<lambda>a b. snd b \<le> snd a) (data tz ts period cursor)
   \<and> (\<forall>k. filter (\<lambda>p. snd p = k) (data tz ts period cursor) =
            map (\<lambda>t. (t, periodDuration tz period cursor t))
              (filter (\<lambda>t. 0 < periodDuration tz period cursor t
                          \<and> periodDuration tz period cursor t = k) ts))"
proof -
  let ?pd = "periodDuration tz period cursor"
  let ?pairs = "map (\<lambda>t. (t, ?pd t)) (filter (\<lambda>t. 0 < ?pd t) ts)"
  have d: "data tz ts period cursor = sort_key (\<lambda>p. - snd p) ?pairs"
    using assms by (rule data_eq)
  have s1: "set (data tz ts period cursor) = {(t, ?pd t) | t. t \<in> set ts \<and> 0 < ?pd t}"
    by (auto simp add: d)
  have s2: "length (data tz ts period cursor) = length (filter (\<lambda>t. 0 < ?pd t) ts)"
    by (simp add: d)
  have "sorted (map (\<lambda>p. - snd p) (data tz ts period cursor))"
    by (simp only: d sorted_sort_key)
  then have s3: "sorted_wrt (\<lambda>a b. snd b \<le> snd a) (data tz ts period cursor)"
    by (simp add: sorted_map)
  have s4: "filter (\<lambda>p. snd p = k) (data tz ts period cursor) =
            map (\<lambda>t. (t, ?pd t)) (filter (\<lambda>t. 0 < ?pd t \<and> ?pd t = k) ts)" for k
  proof -
    have "filter (\<lambda>p. snd p = k) (data tz ts period cursor)
          = filter (\<lambda>p. - snd p = - k) (sort_key (\<lambda>p. - snd p) ?pairs)"
      by (simp add: d)
    also have "\<dots> = filter (\<lambda>p. - snd p = - k) ?pairs"
      by (rule sort_key_stable)
    also have "\<dots> = map (\<lambda>t. (t, ?pd t)) (filter (\<lambda>t. 0 < ?pd t \<and> ?pd t = k) ts)"
      by (simp add: filter_map comp_def conj_commute)
    finally show ?thesis .
  qed
  show ?thesis using s1 s2 s3 s4 by blast
qed

lemma statTasks_data:
  "map (\<lambda>p. (taskId (fst p), snd p)) (data zoneCST statTasks Today 1743386400000) =
     [(js ''w'', 3000000), (js ''r'', 1500000)]"
  by code_simp

text \<open>C3 for three tasks on 31 March 2025: one session of the first task and
  the only session of the third are outside the day.\<close>

theorem C3_aggregator_witness:
  "noEpochEnd statTasks
   \<and> sorted_wrt (\<lambda>a b. snd b \<le> snd a) (data zoneCST statTasks Today 1743386400000)
   \<and> map (\<lambda>p. (taskId (fst p), snd p)) (data zoneCST statTasks Today 1743386400000) =
       [(js ''w'', 3000000), (js ''r'', 1500000)]"
proof -
  have h: "noEpochEnd statTasks"
    by (simp add: noEpochEnd_def statTasks_def)
  show ?thesis
    using h C3_aggregator [OF h, of zoneCST Today 1743386400000] statTasks_data
    by blast
qed


end
